theory Spec2Isabelle
  imports Complex_Main "HOL-Library.Sublist"
begin

section \<open>Errors as values\<close>

text \<open>
  resolver.go declares five sentinel errors with \<^verbatim>\<open>errors.New\<close>. Every other error a
  backend can produce is \<open>ErrOther\<close> with its message; \<^verbatim>\<open>fmt.Errorf("...: %w", err)\<close> is
  \<open>ErrWrap\<close> and the value built by \<^verbatim>\<open>errors.Join\<close> is \<open>ErrJoin\<close>. A Go \<^verbatim>\<open>error\<close> that
  may be \<^verbatim>\<open>nil\<close> is an \<open>err option\<close>, \<open>None\<close> being \<^verbatim>\<open>nil\<close>.
\<close>

datatype err =
    ErrNoResolution
  | ErrNotInHostFiles
  | ErrInvalidHostname
  | ErrInvalidIP
  | ErrNSPermanentFailure
  | ErrOther string
  | ErrWrap string err
  | ErrJoin "err list"

text \<open>
  \<^verbatim>\<open>errors.Is\<close> on a non-nil error: the error itself, or what it wraps, or any member of
  a join, is the target.
\<close>

fun is_in_tree :: "err \<Rightarrow> err \<Rightarrow> bool" where
  "is_in_tree (ErrWrap msg e) target = (ErrWrap msg e = target \<or> is_in_tree e target)"
| "is_in_tree (ErrJoin es) target = (ErrJoin es = target \<or> (\<exists>e \<in> set es. is_in_tree e target))"
| "is_in_tree e target = (e = target)"

text \<open>\<^verbatim>\<open>errors.Is(err, target)\<close>: false on a nil error.\<close>

definition errors_Is :: "err option \<Rightarrow> err \<Rightarrow> bool" where
  "errors_Is e target = (case e of None \<Rightarrow> False | Some x \<Rightarrow> is_in_tree x target)"

text \<open>
  \<^verbatim>\<open>errors.Join(errs...)\<close>: nil values are discarded; nil when nothing is left.
\<close>

definition errors_Join :: "err option list \<Rightarrow> err option" where
  "errors_Join errs =
     (case List.map_filter id errs of [] \<Rightarrow> None | e # es \<Rightarrow> Some (ErrJoin (e # es)))"

text \<open>
  \<^verbatim>\<open>err.Error()\<close>: the message of a sentinel as resolver.go gives it, the prefix followed
  by the wrapped message for \<^verbatim>\<open>fmt.Errorf(prefix + "%w", err)\<close>, and the messages of the
  members separated by newlines for a join.
\<close>

fun join_lines :: "string list \<Rightarrow> string" where
  "join_lines [] = []"
| "join_lines [m] = m"
| "join_lines (m # n # ms) = m @ [CHR 0x0A] @ join_lines (n # ms)"

fun err_Error :: "err \<Rightarrow> string" where
  "err_Error ErrNoResolution = ''no resolution found''"
| "err_Error ErrNotInHostFiles = ''not found in host files''"
| "err_Error ErrInvalidHostname = ''invalid hostname format''"
| "err_Error ErrInvalidIP = ''invalid IP address format''"
| "err_Error ErrNSPermanentFailure = ''permanent failure in nameserver resolution''"
| "err_Error (ErrOther m) = m"
| "err_Error (ErrWrap p e) = p @ err_Error e"
| "err_Error (ErrJoin es) = join_lines (map err_Error es)"

text \<open>\<^verbatim>\<open>strings.Contains\<close>, which \<^verbatim>\<open>assert.Contains\<close> applies to two strings.\<close>

definition strings_Contains :: "string \<Rightarrow> string \<Rightarrow> bool" where
  "strings_Contains s substr = sublist substr s"

section \<open>The resolver contract as chain.go and the processor use it\<close>

text \<open>
  A resolver is a value with four methods. Its calls may have effects (I/O, caches,
  counters), so each method takes the state of the world \<open>'w\<close> and returns the new one.
  \<open>'c\<close> is \<^verbatim>\<open>context.Context\<close>. A Go result pair \<^verbatim>\<open>(result, err)\<close> is a pair of the
  result and an \<open>err option\<close>: Go returns both, also when \<^verbatim>\<open>err\<close> is not nil.

  resolver.go declares the result of \<^verbatim>\<open>Resolve\<close> and \<^verbatim>\<open>Reverse\<close> as \<^verbatim>\<open>[]string\<close>. chain.go
  calls its members through \<^verbatim>\<open>func(r Resolver) (string, error)\<close> and declares its own
  methods with one string, and dnslookup_processor.go passes the result to \<^verbatim>\<open>PutStr\<close>:
  both use the result as one string. The record has the type the chain and the processor
  compute with; the declarations themselves, as resolver.go and chain.go write them, are
  in the section on method sets below.
\<close>

type_synonym 'w lookup = "'w \<Rightarrow> (string \<times> err option) \<times> 'w"

record ('c, 'w) Resolver =
  Resolve :: "'c \<Rightarrow> string \<Rightarrow> 'w lookup"
  Reverse :: "'c \<Rightarrow> string \<Rightarrow> 'w lookup"
  Name :: string
  Close :: "'w \<Rightarrow> err option \<times> 'w"

definition LogKeyHostname :: string where
  "LogKeyHostname = ''hostname''"

definition LogKeyIP :: string where
  "LogKeyIP = ''ip''"

section \<open>chain.go\<close>

text \<open>The struct \<^verbatim>\<open>ChainResolver\<close>; the logger, which only writes debug lines, is left out.\<close>

record ('c, 'w) ChainResolver =
  name :: string
  resolvers :: "('c, 'w) Resolver list"

definition NewChainResolver :: "('c, 'w) Resolver list \<Rightarrow> ('c, 'w) ChainResolver" where
  "NewChainResolver rs = \<lparr>name = ''chain'', resolvers = rs\<rparr>"

text \<open>
  The loop of \<^verbatim>\<open>resolveInSequence\<close> over the remaining members, with \<^verbatim>\<open>lastErr\<close> as
  accumulator, followed by the code after the loop.
\<close>

fun resolveLoop ::
  "(('c, 'w) Resolver \<Rightarrow> 'w lookup) \<Rightarrow> ('c, 'w) Resolver list \<Rightarrow> err option \<Rightarrow> 'w lookup"
where
  "resolveLoop resolverFn [] lastErr w =
     (if errors_Is lastErr ErrNotInHostFiles then (('''', None), w)
      else (('''', lastErr), w))"
| "resolveLoop resolverFn (r # rs) lastErr w =
     (case resolverFn r w of
        ((result, e), w') \<Rightarrow>
          if e = None \<or> errors_Is e ErrNoResolution then ((result, None), w')
          else resolveLoop resolverFn rs e w')"

definition resolveInSequence ::
  "('c, 'w) ChainResolver \<Rightarrow> string \<Rightarrow> string \<Rightarrow> (('c, 'w) Resolver \<Rightarrow> 'w lookup) \<Rightarrow> 'w lookup"
where
  "resolveInSequence c logKey target resolverFn = resolveLoop resolverFn (resolvers c) None"

definition ChainResolver_Resolve :: "('c, 'w) ChainResolver \<Rightarrow> 'c \<Rightarrow> string \<Rightarrow> 'w lookup" where
  "ChainResolver_Resolve c ctx hostname =
     resolveInSequence c LogKeyHostname hostname (\<lambda>r. Resolve r ctx hostname)"

definition ChainResolver_Reverse :: "('c, 'w) ChainResolver \<Rightarrow> 'c \<Rightarrow> string \<Rightarrow> 'w lookup" where
  "ChainResolver_Reverse c ctx ip =
     resolveInSequence c LogKeyIP ip (\<lambda>r. Reverse r ctx ip)"

definition ChainResolver_Name :: "('c, 'w) ChainResolver \<Rightarrow> string" where
  "ChainResolver_Name c = name c"

text \<open>\<^verbatim>\<open>Close\<close>: the loop collecting the non-nil errors, then \<^verbatim>\<open>errors.Join\<close>.\<close>

fun closeLoop :: "('c, 'w) Resolver list \<Rightarrow> err list \<Rightarrow> 'w \<Rightarrow> err list \<times> 'w" where
  "closeLoop [] errs w = (errs, w)"
| "closeLoop (r # rs) errs w =
     (case Close r w of
        (None, w') \<Rightarrow> closeLoop rs errs w'
      | (Some e, w') \<Rightarrow> closeLoop rs (errs @ [e]) w')"

definition ChainResolver_Close :: "('c, 'w) ChainResolver \<Rightarrow> 'w \<Rightarrow> err option \<times> 'w" where
  "ChainResolver_Close c w =
     (case closeLoop (resolvers c) [] w of (errs, w') \<Rightarrow> (errors_Join (map Some errs), w'))"

section \<open>The method sets as declared\<close>

text \<open>
  The result and parameter types that occur in the declarations of resolver.go and
  chain.go, and a method signature as its name, parameter types and result types.
\<close>

datatype go_type = TContext | TString | TStringSlice | TError

record method_sig =
  mname :: string
  params :: "go_type list"
  results :: "go_type list"

text \<open>The interface \<^verbatim>\<open>Resolver\<close> of resolver.go, lines 34 to 47.\<close>

definition Resolver_interface :: "method_sig list" where
  "Resolver_interface =
     [\<lparr>mname = ''Resolve'', params = [TContext, TString], results = [TStringSlice, TError]\<rparr>,
      \<lparr>mname = ''Reverse'', params = [TContext, TString], results = [TStringSlice, TError]\<rparr>,
      \<lparr>mname = ''Name'', params = [], results = [TString]\<rparr>,
      \<lparr>mname = ''Close'', params = [], results = [TError]\<rparr>]"

text \<open>The methods chain.go declares on \<^verbatim>\<open>*ChainResolver\<close>.\<close>

definition ChainResolver_methods :: "method_sig list" where
  "ChainResolver_methods =
     [\<lparr>mname = ''Resolve'', params = [TContext, TString], results = [TString, TError]\<rparr>,
      \<lparr>mname = ''Reverse'', params = [TContext, TString], results = [TString, TError]\<rparr>,
      \<lparr>mname = ''Name'', params = [], results = [TString]\<rparr>,
      \<lparr>mname = ''Close'', params = [], results = [TError]\<rparr>]"

text \<open>
  Go's rule: a type implements an interface when its method set has every method of the
  interface, with the same name, parameter types and result types.
\<close>

definition implements :: "method_sig list \<Rightarrow> method_sig list \<Rightarrow> bool" where
  "implements ms iface = list_all (\<lambda>m. m \<in> set ms) iface"

definition results_of :: "method_sig list \<Rightarrow> string \<Rightarrow> go_type list option" where
  "results_of ms n = map_option results (find (\<lambda>m. mname m = n) ms)"




section \<open>dnslookup\_processor.go\<close>

text \<open>
  Modelled from the spec: the telemetry attribute store \<^verbatim>\<open>pcommon.Map\<close>, which is not
  part of the sources. The spec gives it as \<^verbatim>\<open>Get(name) -> (value, found)\<close> and
  \<^verbatim>\<open>Put(name, value)\<close>: a map from attribute names to string values, where \<^verbatim>\<open>PutStr\<close>
  replaces the value of a name that is present.
\<close>

type_synonym pMap = "string \<rightharpoonup> string"

definition PutStr :: "pMap \<Rightarrow> string \<Rightarrow> string \<Rightarrow> pMap" where
  "PutStr m k v = m(k \<mapsto> v)"

type_synonym ContextID = string

text \<open>
  The fields of \<^verbatim>\<open>LookupConfig\<close> and \<^verbatim>\<open>Config\<close> as the processor and the configuration
  test use them. \<^verbatim>\<open>Config.Resolve\<close> and \<^verbatim>\<open>Config.Reverse\<close> carry a suffix here, since
  the resolver's methods have these names.
\<close>

record LookupConfig =
  Enabled :: bool
  Context :: ContextID
  Attributes :: "string list"
  ResolvedAttribute :: string

record Config =
  Resolve_cfg :: LookupConfig
  Reverse_cfg :: LookupConfig
  HitCacheSize :: int
  HitCacheTTL :: int
  MissCacheSize :: int
  MissCacheTTL :: int
  MaxRetries :: int
  Timeout :: real
  EnableSystemResolver :: bool
  Hostfiles :: "string list"
  Nameservers :: "string list"

text \<open>The struct \<^verbatim>\<open>dnsLookupProcessor\<close>, without its logger and its list of closures.\<close>

record ('c, 'w) dnsLookupProcessor =
  config :: Config
  resolver :: "('c, 'w) Resolver"

text \<open>
  \<^verbatim>\<open>targetStrFromAttributes\<close>: the loop over the attribute names with \<^verbatim>\<open>lastErr\<close> as
  accumulator. \<^verbatim>\<open>validateFn\<close> is \<^verbatim>\<open>resolver.ParseHostname\<close> or \<^verbatim>\<open>resolver.ParseIP\<close>,
  which are not part of the sources and stay parameters.
\<close>

fun targetLoop ::
  "string list \<Rightarrow> pMap \<Rightarrow> (string \<Rightarrow> string \<times> err option) \<Rightarrow> err option \<Rightarrow> string \<times> err option"
where
  "targetLoop [] m validateFn lastErr = ('''', lastErr)"
| "targetLoop (attr # attrs) m validateFn lastErr =
     (case m attr of
        None \<Rightarrow> targetLoop attrs m validateFn lastErr
      | Some val \<Rightarrow>
          (case validateFn val of
             (validStr, e) \<Rightarrow>
               if e \<noteq> None then targetLoop attrs m validateFn e else (validStr, None)))"

definition targetStrFromAttributes ::
  "string list \<Rightarrow> pMap \<Rightarrow> (string \<Rightarrow> string \<times> err option) \<Rightarrow> string \<times> err option"
where
  "targetStrFromAttributes attributes m validateFn = targetLoop attributes m validateFn None"

text \<open>
  \<^verbatim>\<open>processResolveLookup\<close> and \<^verbatim>\<open>processReverseLookup\<close> return the error, the attribute
  map as the call leaves it, and the world as the resolver leaves it.
\<close>

definition processResolveLookup ::
  "(string \<Rightarrow> string \<times> err option) \<Rightarrow> ('c, 'w) dnsLookupProcessor \<Rightarrow> 'c \<Rightarrow> pMap \<Rightarrow> 'w
     \<Rightarrow> err option \<times> pMap \<times> 'w"
where
  "processResolveLookup ParseHostname dp ctx m w =
     (case targetStrFromAttributes (Attributes (Resolve_cfg (config dp))) m ParseHostname of
        (hostname, e) \<Rightarrow>
          if e \<noteq> None then
            (if errors_Is e ErrInvalidHostname then (None, m, w) else (e, m, w))
          else
            (case Resolve (resolver dp) ctx hostname w of
               ((ip, e'), w') \<Rightarrow>
                 if e' = None then
                   (if length ip > 0
                    then (None, PutStr m (ResolvedAttribute (Resolve_cfg (config dp))) ip, w')
                    else (None, m, w'))
                 else if errors_Is e' ErrNoResolution then (None, m, w')
                 else (e', m, w')))"

definition processReverseLookup ::
  "(string \<Rightarrow> string \<times> err option) \<Rightarrow> ('c, 'w) dnsLookupProcessor \<Rightarrow> 'c \<Rightarrow> pMap \<Rightarrow> 'w
     \<Rightarrow> err option \<times> pMap \<times> 'w"
where
  "processReverseLookup ParseIP dp ctx m w =
     (case targetStrFromAttributes (Attributes (Reverse_cfg (config dp))) m ParseIP of
        (ip, e) \<Rightarrow>
          if e \<noteq> None then
            (if errors_Is e ErrInvalidIP then (None, m, w) else (e, m, w))
          else
            (case Reverse (resolver dp) ctx ip w of
               ((hostname, e'), w') \<Rightarrow>
                 if e' = None then
                   (if length hostname > 0
                    then (None, PutStr m (ResolvedAttribute (Reverse_cfg (config dp))) hostname, w')
                    else (None, m, w'))
                 else if errors_Is e' ErrNoResolution then (None, m, w')
                 else (e', m, w')))"

definition processDNSLookup ::
  "(string \<Rightarrow> string \<times> err option) \<Rightarrow> (string \<Rightarrow> string \<times> err option)
     \<Rightarrow> ('c, 'w) dnsLookupProcessor \<Rightarrow> 'c \<Rightarrow> pMap \<Rightarrow> 'w \<Rightarrow> err option \<times> pMap \<times> 'w"
where
  "processDNSLookup ParseHostname ParseIP dp ctx m w =
     (case processResolveLookup ParseHostname dp ctx m w of
        (resolveErr, m1, w1) \<Rightarrow>
          (case processReverseLookup ParseIP dp ctx m1 w1 of
             (reverseErr, m2, w2) \<Rightarrow> (errors_Join [resolveErr, reverseErr], m2, w2)))"

text \<open>
  The value of the variable \<^verbatim>\<open>resolvers\<close> of \<^verbatim>\<open>createResolverChain\<close> at its call of
  \<^verbatim>\<open>NewChainResolver\<close>: the host-file resolver when host files are configured, then the
  nameserver resolver when nameservers are configured, then the system resolver when it
  is enabled. The three constructors are not among the sources; the resolvers they
  return are parameters here, and the returns of \<^verbatim>\<open>createResolverChain\<close> before that call,
  where a constructor fails and no chain is built, are left out.
\<close>

definition createResolverChain_resolvers ::
  "Config \<Rightarrow> ('c, 'w) Resolver \<Rightarrow> ('c, 'w) Resolver \<Rightarrow> ('c, 'w) Resolver \<Rightarrow> ('c, 'w) Resolver list"
where
  "createResolverChain_resolvers cfg hostfileResolver nameserverResolver systemResolver =
     (if length (Hostfiles cfg) > 0 then [hostfileResolver] else [])
     @ (if length (Nameservers cfg) > 0 then [nameserverResolver] else [])
     @ (if EnableSystemResolver cfg then [systemResolver] else [])"

section \<open>Configuration validation\<close>

text \<open>The two context identifiers, and the valid configuration the test starts from.\<close>

definition resource :: ContextID where
  "resource = ''resource''"

definition record_context :: ContextID where
  "record_context = ''record''"

definition createValidConfig :: Config where
  "createValidConfig =
     \<lparr>Resolve_cfg = \<lparr>Enabled = True, Context = resource,
                      Attributes = [''host.name''], ResolvedAttribute = ''host.ip''\<rparr>,
      Reverse_cfg = \<lparr>Enabled = False, Context = resource,
                      Attributes = [''client.ip''], ResolvedAttribute = ''client.name''\<rparr>,
      HitCacheSize = 1000, HitCacheTTL = 60, MissCacheSize = 1000, MissCacheTTL = 5,
      MaxRetries = 2, Timeout = 0.5, EnableSystemResolver = True,
      Hostfiles = [], Nameservers = []\<rparr>"

definition check :: "bool \<Rightarrow> string \<Rightarrow> err option" where
  "check ok msg = (if ok then None else Some (ErrOther msg))"

definition wrap :: "string \<Rightarrow> err option \<Rightarrow> err option" where
  "wrap p e = map_option (ErrWrap p) e"

text \<open>
  Modelled from the spec: \<^verbatim>\<open>Config.Validate\<close>, of which the sources hold only the test.
  The spec gives the rule of each field in a table and says that a configuration
  breaking a rule fails with the rule's message; the messages are those the test expects.
  Each rule that is broken contributes its message, and the result is their join.
\<close>

definition validateLookupConfig :: "LookupConfig \<Rightarrow> err option list" where
  "validateLookupConfig lc =
     (if \<not> Enabled lc then []
      else [check (Attributes lc \<noteq> [])
              ''at least one attribute must be specified for DNS resolution'',
            check (ResolvedAttribute lc \<noteq> [])
              ''resovled_attribute must be specified for DNS resolution'',
            check (Context lc = resource \<or> Context lc = record_context)
              (''context must be either '' @ [CHR 0x27] @ ''resource'' @ [CHR 0x27]
                 @ '' or '' @ [CHR 0x27] @ ''record'' @ [CHR 0x27])])"

definition Validate :: "Config \<Rightarrow> err option" where
  "Validate cfg =
     errors_Join
       ([check (Enabled (Resolve_cfg cfg) \<or> Enabled (Reverse_cfg cfg))
           ''either forward (resolve) or reverse DNS lookup must be enabled'']
        @ map (wrap ''resolve configuration: '') (validateLookupConfig (Resolve_cfg cfg))
        @ map (wrap ''reverse configuration: '') (validateLookupConfig (Reverse_cfg cfg))
        @ [check (0 < Timeout cfg) ''timeout must be positive'',
           check (0 \<le> MaxRetries cfg) ''max_retries must be non-negative'',
           check (0 \<le> HitCacheSize cfg) ''hit_cache_size must be non-negative'',
           check (0 \<le> MissCacheSize cfg) ''miss_cache_size must be non-negative'',
           check (0 < HitCacheTTL cfg) ''hit_cache_ttl must be positive'',
           check (0 < MissCacheTTL cfg) ''miss_cache_ttl must be positive'',
           check (EnableSystemResolver cfg \<or> Hostfiles cfg \<noteq> [] \<or> Nameservers cfg \<noteq> [])
             ''at least one of enable_system_resolver, hostfiles, or nameservers must be specified''])"

text \<open>The field rules of the spec's configuration table.\<close>

definition lookup_rules :: "LookupConfig \<Rightarrow> bool" where
  "lookup_rules lc =
     (if Enabled lc
      then (Context lc = resource \<or> Context lc = record_context)
           \<and> Attributes lc \<noteq> [] \<and> ResolvedAttribute lc \<noteq> []
      else True)"

definition field_rules :: "Config \<Rightarrow> bool" where
  "field_rules cfg =
     ((Enabled (Resolve_cfg cfg) \<or> Enabled (Reverse_cfg cfg))
      \<and> lookup_rules (Resolve_cfg cfg) \<and> lookup_rules (Reverse_cfg cfg)
      \<and> 0 \<le> HitCacheSize cfg \<and> 0 \<le> MissCacheSize cfg
      \<and> 0 < HitCacheTTL cfg \<and> 0 < MissCacheTTL cfg
      \<and> 0 \<le> MaxRetries cfg \<and> 0 < Timeout cfg
      \<and> (EnableSystemResolver cfg \<or> Hostfiles cfg \<noteq> [] \<or> Nameservers cfg \<noteq> []))"

section \<open>Vocabulary of the properties\<close>

text \<open>
  An attempt fails when it returns an error that is not \<^verbatim>\<open>ErrNoResolution\<close>; a failure
  is non-special when its error does not match \<^verbatim>\<open>ErrNotInHostFiles\<close> either.
\<close>

definition failed :: "string \<times> err option \<Rightarrow> bool" where
  "failed out = (snd out \<noteq> None \<and> \<not> errors_Is (snd out) ErrNoResolution)"

definition nonspecial_failure :: "string \<times> err option \<Rightarrow> bool" where
  "nonspecial_failure out =
     (snd out \<noteq> None \<and> \<not> errors_Is (snd out) ErrNoResolution
      \<and> \<not> errors_Is (snd out) ErrNotInHostFiles)"

text \<open>
  What the members return when they are called one after the other, each in the world
  the one before it left, and the world after the last of them.
\<close>

fun outcomes ::
  "(('c, 'w) Resolver \<Rightarrow> 'w lookup) \<Rightarrow> ('c, 'w) Resolver list \<Rightarrow> 'w \<Rightarrow> (string \<times> err option) list"
where
  "outcomes fn [] w = []"
| "outcomes fn (r # rs) w = (case fn r w of (out, w') \<Rightarrow> out # outcomes fn rs w')"

fun world_after :: "(('c, 'w) Resolver \<Rightarrow> 'w lookup) \<Rightarrow> ('c, 'w) Resolver list \<Rightarrow> 'w \<Rightarrow> 'w" where
  "world_after fn [] w = w"
| "world_after fn (r # rs) w = world_after fn rs (snd (fn r w))"

definition last_error :: "err option \<Rightarrow> (string \<times> err option) list \<Rightarrow> err option" where
  "last_error lastErr outs = (if outs = [] then lastErr else snd (last outs))"

text \<open>The same for \<^verbatim>\<open>Close\<close>: what each member's \<^verbatim>\<open>Close\<close> returns, and the world after all.\<close>

fun close_outcomes :: "('c, 'w) Resolver list \<Rightarrow> 'w \<Rightarrow> err option list" where
  "close_outcomes [] w = []"
| "close_outcomes (r # rs) w = (case Close r w of (e, w') \<Rightarrow> e # close_outcomes rs w')"

fun closed_world :: "('c, 'w) Resolver list \<Rightarrow> 'w \<Rightarrow> 'w" where
  "closed_world [] w = w"
| "closed_world (r # rs) w = closed_world rs (snd (Close r w))"

section \<open>Test doubles\<close>

text \<open>
  The world of the examples is the list of the calls made so far, each call written as the
  name of the resolver called. A stub returns a fixed outcome from \<^verbatim>\<open>Resolve\<close> and
  \<^verbatim>\<open>Reverse\<close> and a fixed error from \<^verbatim>\<open>Close\<close>. A flaky resolver times out on its first
  call and returns its outcome from the second call on.
\<close>

definition stubResolver ::
  "string \<Rightarrow> string \<times> err option \<Rightarrow> err option \<Rightarrow> ('c, string list) Resolver"
where
  "stubResolver n out closeErr =
     \<lparr>Resolve = (\<lambda>ctx hostname w. (out, w @ [n])),
      Reverse = (\<lambda>ctx ip w. (out, w @ [n])),
      Name = n,
      Close = (\<lambda>w. (closeErr, w @ [n]))\<rparr>"

definition flakyResolver :: "string \<Rightarrow> string \<times> err option \<Rightarrow> ('c, string list) Resolver" where
  "flakyResolver n out =
     \<lparr>Resolve = (\<lambda>ctx hostname w.
         (if n \<in> set w then out else ('''', Some (ErrOther ''i/o timeout'')), w @ [n])),
      Reverse = (\<lambda>ctx ip w.
         (if n \<in> set w then out else ('''', Some (ErrOther ''i/o timeout'')), w @ [n])),
      Name = n,
      Close = (\<lambda>w. (None, w @ [n]))\<rparr>"

text \<open>
  The stubs of the examples: a host file without the name, a host file that cannot be
  read, a nameserver that refuses and whose \<^verbatim>\<open>Close\<close> fails, a system resolver that
  answers and one that fails, a resolver that answers every name but the empty one, a validation function
  that accepts every value, and a processor over the test's valid configuration.
\<close>

definition hostfileMiss :: "(unit, string list) Resolver" where
  "hostfileMiss = stubResolver ''hostfile'' ('''', Some ErrNotInHostFiles) None"

definition hostfileBroken :: "(unit, string list) Resolver" where
  "hostfileBroken = stubResolver ''hostfile'' ('''', Some (ErrOther ''read error'')) None"

definition nameserverDown :: "(unit, string list) Resolver" where
  "nameserverDown = stubResolver ''nameserver'' ('''', Some ErrNSPermanentFailure) (Some (ErrOther ''close failed''))"

definition systemOK :: "(unit, string list) Resolver" where
  "systemOK = stubResolver ''system'' (''93.184.216.34'', None) None"

definition systemDown :: "(unit, string list) Resolver" where
  "systemDown = stubResolver ''system'' ('''', Some (ErrOther ''no such host'')) None"

definition acceptAny :: "string \<Rightarrow> string \<times> err option" where
  "acceptAny s = (s, None)"

definition testProcessor :: "(unit, string list) Resolver \<Rightarrow> (unit, string list) dnsLookupProcessor" where
  "testProcessor r = \<lparr>config = createValidConfig, resolver = r\<rparr>"

definition rejectEmpty :: "(unit, string list) Resolver" where
  "rejectEmpty =
     \<lparr>Resolve = (\<lambda>ctx hostname w.
         (if hostname = [] then ('''', Some (ErrOther ''lookup : no such host''))
          else (''93.184.216.34'', None), w @ [''Resolve('' @ hostname @ '')''])),
      Reverse = (\<lambda>ctx ip w.
         (if ip = [] then ('''', Some (ErrOther ''lookup : unrecognized address''))
          else (''example.com'', None), w @ [''Reverse('' @ ip @ '')''])),
      Name = ''system'',
      Close = (\<lambda>w. (None, w))\<rparr>"

section \<open>Unfolding the test doubles\<close>

lemmas fixtures = hostfileMiss_def hostfileBroken_def nameserverDown_def systemOK_def
  stubResolver_def NewChainResolver_def

section \<open>The chain's loop\<close>

lemma resolveLoop_append:
  "list_all failed (outcomes fn pre w) \<Longrightarrow>
   resolveLoop fn (pre @ rest) lastErr w =
   resolveLoop fn rest (last_error lastErr (outcomes fn pre w)) (world_after fn pre w)"
proof (induction pre arbitrary: lastErr w)
  case Nil
  then show ?case by (simp add: last_error_def)
next
  case (Cons r pre)
  obtain res e w' where run: "fn r w = ((res, e), w')" by (metis prod.exhaust)
  from Cons.prems run have f: "failed (res, e)" and rest: "list_all failed (outcomes fn pre w')"
    by simp_all
  from f have go: "resolveLoop fn ((r # pre) @ rest) lastErr w = resolveLoop fn (pre @ rest) e w'"
    using run by (auto simp: failed_def)
  have "last_error e (outcomes fn pre w') = last_error lastErr (outcomes fn (r # pre) w)"
    using run by (simp add: last_error_def)
  with Cons.IH[OF rest, of e] go run show ?case by simp
qed

lemma resolveLoop_all_failed:
  assumes "list_all failed (outcomes fn rs w)"
  shows "resolveLoop fn rs lastErr w =
     (('''', if errors_Is (last_error lastErr (outcomes fn rs w)) ErrNotInHostFiles then None
             else last_error lastErr (outcomes fn rs w)),
      world_after fn rs w)"
  using resolveLoop_append[OF assms, of "[]" lastErr] by simp

lemma resolveLoop_never_hostfiles:
  "\<not> errors_Is (snd (fst (resolveLoop fn rs lastErr w))) ErrNotInHostFiles"
  by (induction rs arbitrary: lastErr w) (auto simp: errors_Is_def split: prod.splits)

lemma nonspecial_failed: "list_all nonspecial_failure outs \<Longrightarrow> list_all failed outs"
  by (induction outs) (auto simp: nonspecial_failure_def failed_def)

lemma nonspecial_last:
  "outs \<noteq> [] \<Longrightarrow> list_all nonspecial_failure outs \<Longrightarrow>
   \<not> errors_Is (snd (last outs)) ErrNotInHostFiles"
  by (induction outs) (auto simp: nonspecial_failure_def)

lemma failed_last:
  "outs \<noteq> [] \<Longrightarrow> list_all failed outs \<Longrightarrow> snd (last outs) \<noteq> None"
  by (induction outs) (auto simp: failed_def)

lemma outcomes_Nil: "outcomes fn rs w = [] \<longleftrightarrow> rs = []"
  by (cases rs) (auto split: prod.splits)

lemma outcomes_snoc_last:
  "snd (last (outcomes fn (pre @ [r]) w)) = snd (fst (fn r (world_after fn pre w)))"
proof (induction pre arbitrary: w)
  case Nil
  show ?case by (simp split: prod.splits)
next
  case (Cons a pre)
  obtain out w' where run: "fn a w = (out, w')" by (metis prod.exhaust)
  have ne: "outcomes fn (pre @ [r]) w' \<noteq> []" by (simp add: outcomes_Nil)
  from Cons.IH[of w'] run ne show ?case by simp
qed

lemma resolveLoop_nonspecial:
  assumes "rs \<noteq> []" and "list_all nonspecial_failure (outcomes fn rs w)"
  shows "resolveLoop fn rs None w = (('''', snd (last (outcomes fn rs w))), world_after fn rs w)"
proof -
  from assms have ne: "outcomes fn rs w \<noteq> []" by (simp add: outcomes_Nil)
  with assms have "\<not> errors_Is (snd (last (outcomes fn rs w))) ErrNotInHostFiles"
    by (simp add: nonspecial_last)
  with ne resolveLoop_all_failed[OF nonspecial_failed[OF assms(2)], of None] show ?thesis
    by (simp add: last_error_def)
qed

lemma resolveLoop_first_success:
  assumes "list_all failed (outcomes fn pre w)"
    and "fn s (world_after fn pre w) = ((res, e), w')"
    and "e = None \<or> errors_Is e ErrNoResolution"
  shows "resolveLoop fn (pre @ s # post) lastErr w = ((res, None), w')"
  using resolveLoop_append[OF assms(1), of "s # post" lastErr] assms(2,3) by auto

lemma resolveLoop_converts:
  assumes "rs \<noteq> []" and "list_all failed (outcomes fn rs w)"
  shows "snd (fst (resolveLoop fn rs None w)) = None
         \<longleftrightarrow> errors_Is (snd (last (outcomes fn rs w))) ErrNotInHostFiles"
proof -
  from assms have ne: "outcomes fn rs w \<noteq> []" by (simp add: outcomes_Nil)
  from failed_last[OF ne assms(2)] have "snd (last (outcomes fn rs w)) \<noteq> None" .
  with ne show ?thesis
    by (simp add: resolveLoop_all_failed[OF assms(2)] last_error_def)
qed

text \<open>
  C4. In a chain that is not empty, when every member fails with an error that matches
  neither \<^verbatim>\<open>ErrNoResolution\<close> nor \<^verbatim>\<open>ErrNotInHostFiles\<close>, \<^verbatim>\<open>Resolve\<close> and \<^verbatim>\<open>Reverse\<close>
  return the empty string together with the error of the last member, unchanged, after
  every member has been called once, in order.
\<close>
theorem chain_all_fail_last_error:
  "(resolvers c \<noteq> [] \<and> list_all nonspecial_failure (outcomes (\<lambda>r. Resolve r ctx target) (resolvers c) w)
      \<longrightarrow> ChainResolver_Resolve c ctx target w =
            (('''', snd (last (outcomes (\<lambda>r. Resolve r ctx target) (resolvers c) w))),
             world_after (\<lambda>r. Resolve r ctx target) (resolvers c) w))
   \<and> (resolvers c \<noteq> [] \<and> list_all nonspecial_failure (outcomes (\<lambda>r. Reverse r ctx target) (resolvers c) w)
      \<longrightarrow> ChainResolver_Reverse c ctx target w =
            (('''', snd (last (outcomes (\<lambda>r. Reverse r ctx target) (resolvers c) w))),
             world_after (\<lambda>r. Reverse r ctx target) (resolvers c) w))"
  by (simp add: ChainResolver_Resolve_def ChainResolver_Reverse_def resolveInSequence_def
      resolveLoop_nonspecial)

text \<open>The theorem at a concrete input.\<close>
theorem chain_all_fail_last_error_witness:
  "resolvers (NewChainResolver [hostfileBroken, nameserverDown]) \<noteq> []
   \<and> list_all nonspecial_failure
        (outcomes (\<lambda>r. Resolve r () ''example.com'') (resolvers (NewChainResolver [hostfileBroken, nameserverDown])) [])
   \<and> list_all nonspecial_failure
        (outcomes (\<lambda>r. Reverse r () ''example.com'') (resolvers (NewChainResolver [hostfileBroken, nameserverDown])) [])
   \<and> ChainResolver_Resolve (NewChainResolver [hostfileBroken, nameserverDown]) () ''example.com'' []
      = (('''', Some ErrNSPermanentFailure), [''hostfile'', ''nameserver''])
   \<and> ChainResolver_Reverse (NewChainResolver [hostfileBroken, nameserverDown]) () ''example.com'' []
      = (('''', Some ErrNSPermanentFailure), [''hostfile'', ''nameserver''])"
  using chain_all_fail_last_error[of "NewChainResolver [hostfileBroken, nameserverDown]" "()" "''example.com''" "[]"]
  by (simp add: fixtures nonspecial_failure_def errors_Is_def)

text \<open>
  C5. When the members up to and including position \<open>i\<close> fail and the member at position
  \<open>i + 1\<close> returns no error, or an error matching \<^verbatim>\<open>ErrNoResolution\<close>, the chain returns
  the result of that member with no error and stops there: the world is the one that
  member left, and neither the earlier failures nor the members after it have a part in
  the result.
\<close>
theorem chain_returns_first_success:
  "(resolvers c = pre @ r # s # post
      \<and> list_all failed (outcomes (\<lambda>x. Resolve x ctx target) (pre @ [r]) w)
      \<and> Resolve s ctx target (world_after (\<lambda>x. Resolve x ctx target) (pre @ [r]) w) = ((res, e), w')
      \<and> (e = None \<or> errors_Is e ErrNoResolution)
      \<longrightarrow> ChainResolver_Resolve c ctx target w = ((res, None), w'))
   \<and> (resolvers c = pre @ r # s # post
      \<and> list_all failed (outcomes (\<lambda>x. Reverse x ctx target) (pre @ [r]) w)
      \<and> Reverse s ctx target (world_after (\<lambda>x. Reverse x ctx target) (pre @ [r]) w) = ((res, e), w')
      \<and> (e = None \<or> errors_Is e ErrNoResolution)
      \<longrightarrow> ChainResolver_Reverse c ctx target w = ((res, None), w'))"
proof -
  have split: "pre @ r # s # post = (pre @ [r]) @ s # post" by simp
  show ?thesis
    unfolding ChainResolver_Resolve_def ChainResolver_Reverse_def resolveInSequence_def
    by (auto simp only: split intro: resolveLoop_first_success)
qed

text \<open>The theorem at a concrete input.\<close>
theorem chain_returns_first_success_witness:
  "resolvers (NewChainResolver [hostfileMiss, nameserverDown, systemOK, hostfileBroken])
     = [hostfileMiss] @ nameserverDown # systemOK # [hostfileBroken]
   \<and> list_all failed (outcomes (\<lambda>x. Resolve x () ''example.com'') ([hostfileMiss] @ [nameserverDown]) [])
   \<and> Resolve systemOK () ''example.com''
        (world_after (\<lambda>x. Resolve x () ''example.com'') ([hostfileMiss] @ [nameserverDown]) [])
      = ((''93.184.216.34'', None), [''hostfile'', ''nameserver'', ''system''])
   \<and> ChainResolver_Resolve (NewChainResolver [hostfileMiss, nameserverDown, systemOK, hostfileBroken])
        () ''example.com'' []
      = ((''93.184.216.34'', None), [''hostfile'', ''nameserver'', ''system''])"
  using chain_returns_first_success[of "NewChainResolver [hostfileMiss, nameserverDown, systemOK, hostfileBroken]"
      "[hostfileMiss]" nameserverDown systemOK "[hostfileBroken]" "()" "''example.com''" "[]"
      "''93.184.216.34''" None "[''hostfile'', ''nameserver'', ''system'']"]
  by (simp add: fixtures failed_def errors_Is_def)

text \<open>
  C10. Whatever the chain holds, \<^verbatim>\<open>Resolve\<close> and \<^verbatim>\<open>Reverse\<close> never return an error that
  matches \<^verbatim>\<open>ErrNotInHostFiles\<close>; when every member fails and the last error seen matches
  it, they return the empty string and no error.
\<close>
theorem chain_never_returns_NotInHostFiles:
  "\<not> errors_Is (snd (fst (ChainResolver_Resolve c ctx target w))) ErrNotInHostFiles
   \<and> \<not> errors_Is (snd (fst (ChainResolver_Reverse c ctx target w))) ErrNotInHostFiles
   \<and> (list_all failed (outcomes (\<lambda>r. Resolve r ctx target) (resolvers c) w)
        \<and> errors_Is (last_error None (outcomes (\<lambda>r. Resolve r ctx target) (resolvers c) w)) ErrNotInHostFiles
      \<longrightarrow> ChainResolver_Resolve c ctx target w =
            (('''', None), world_after (\<lambda>r. Resolve r ctx target) (resolvers c) w))
   \<and> (list_all failed (outcomes (\<lambda>r. Reverse r ctx target) (resolvers c) w)
        \<and> errors_Is (last_error None (outcomes (\<lambda>r. Reverse r ctx target) (resolvers c) w)) ErrNotInHostFiles
      \<longrightarrow> ChainResolver_Reverse c ctx target w =
            (('''', None), world_after (\<lambda>r. Reverse r ctx target) (resolvers c) w))"
  by (simp add: ChainResolver_Resolve_def ChainResolver_Reverse_def resolveInSequence_def
      resolveLoop_never_hostfiles resolveLoop_all_failed)

text \<open>The theorem at a concrete input.\<close>
theorem chain_never_returns_NotInHostFiles_witness:
  "list_all failed (outcomes (\<lambda>r. Resolve r () ''example.com'') (resolvers (NewChainResolver [nameserverDown, hostfileMiss])) [])
   \<and> errors_Is (last_error None
        (outcomes (\<lambda>r. Resolve r () ''example.com'') (resolvers (NewChainResolver [nameserverDown, hostfileMiss])) []))
        ErrNotInHostFiles
   \<and> ChainResolver_Resolve (NewChainResolver [nameserverDown, hostfileMiss]) () ''example.com'' []
      = (('''', None), [''nameserver'', ''hostfile''])
   \<and> \<not> errors_Is (snd (fst (ChainResolver_Resolve (NewChainResolver [nameserverDown, hostfileMiss]) () ''example.com'' [])))
        ErrNotInHostFiles"
  using chain_never_returns_NotInHostFiles[of "NewChainResolver [nameserverDown, hostfileMiss]" "()" "''example.com''" "[]"]
  by (simp add: fixtures failed_def errors_Is_def last_error_def)


text \<open>
  What the guard does, for every chain: a single member whose error matches
  \<^verbatim>\<open>ErrNotInHostFiles\<close> and not \<^verbatim>\<open>ErrNoResolution\<close> gives the empty string and no error,
  and when all members of a chain fail the result has no error exactly when the last
  member's error matches \<^verbatim>\<open>ErrNotInHostFiles\<close>.
\<close>
lemma chain_conversion_on_last_error:
  "(resolvers c = [r] \<and> Resolve r ctx target w = ((res, e), w')
      \<and> errors_Is e ErrNotInHostFiles \<and> \<not> errors_Is e ErrNoResolution
      \<longrightarrow> ChainResolver_Resolve c ctx target w = (('''', None), w'))
   \<and> (resolvers c = [r] \<and> Reverse r ctx target w = ((res, e), w')
      \<and> errors_Is e ErrNotInHostFiles \<and> \<not> errors_Is e ErrNoResolution
      \<longrightarrow> ChainResolver_Reverse c ctx target w = (('''', None), w'))
   \<and> (resolvers c \<noteq> [] \<and> list_all failed (outcomes (\<lambda>r. Resolve r ctx target) (resolvers c) w)
      \<longrightarrow> (snd (fst (ChainResolver_Resolve c ctx target w)) = None
           \<longleftrightarrow> errors_Is (snd (last (outcomes (\<lambda>r. Resolve r ctx target) (resolvers c) w))) ErrNotInHostFiles))
   \<and> (resolvers c \<noteq> [] \<and> list_all failed (outcomes (\<lambda>r. Reverse r ctx target) (resolvers c) w)
      \<longrightarrow> (snd (fst (ChainResolver_Reverse c ctx target w)) = None
           \<longleftrightarrow> errors_Is (snd (last (outcomes (\<lambda>r. Reverse r ctx target) (resolvers c) w))) ErrNotInHostFiles))"
proof -
  have one: "resolveLoop fn [r] None w = (('''', None), w')"
    if "fn r w = ((res, e), w')" "errors_Is e ErrNotInHostFiles" "\<not> errors_Is e ErrNoResolution"
    for fn :: "('a, 'b) Resolver \<Rightarrow> 'b lookup"
    using that by (auto simp: errors_Is_def)
  show ?thesis
    unfolding ChainResolver_Resolve_def ChainResolver_Reverse_def resolveInSequence_def
    using one[of "\<lambda>r. Resolve r ctx target"] one[of "\<lambda>r. Reverse r ctx target"]
    by (auto simp: resolveLoop_converts)
qed

text \<open>
  The chains \<^verbatim>\<open>createResolverChain\<close> builds put the host-file resolver first. When the
  nameserver resolver and the system resolver never return an error that matches
  \<^verbatim>\<open>ErrNotInHostFiles\<close>, such a chain whose members all fail returns no error only when
  the host-file resolver is its one member. The chain of the evaluation above is not
  among them: the guard departs from its comment in \<^verbatim>\<open>ChainResolver\<close> itself, whose
  constructor takes any list of resolvers.
\<close>
lemma built_chain_converts_only_single_hostfile:
  assumes ns: "\<And>w. \<not> errors_Is (snd (fst (fn nameserverResolver w))) ErrNotInHostFiles"
    and sy: "\<And>w. \<not> errors_Is (snd (fst (fn systemResolver w))) ErrNotInHostFiles"
    and ne: "createResolverChain_resolvers cfg hostfileResolver nameserverResolver systemResolver \<noteq> []"
    and fl: "list_all failed (outcomes fn
               (createResolverChain_resolvers cfg hostfileResolver nameserverResolver systemResolver) w)"
    and cv: "snd (fst (resolveInSequence
               (NewChainResolver
                  (createResolverChain_resolvers cfg hostfileResolver nameserverResolver systemResolver))
               logKey target fn w)) = None"
  shows "createResolverChain_resolvers cfg hostfileResolver nameserverResolver systemResolver
         = [hostfileResolver]"
proof -
  let ?rs = "createResolverChain_resolvers cfg hostfileResolver nameserverResolver systemResolver"
  from cv have cv': "snd (fst (resolveLoop fn ?rs None w)) = None"
    by (simp add: resolveInSequence_def NewChainResolver_def)
  from resolveLoop_converts[OF ne fl] cv'
  have last: "errors_Is (snd (last (outcomes fn ?rs w))) ErrNotInHostFiles" by simp
  show ?thesis
  proof (cases "EnableSystemResolver cfg")
    case True
    then obtain pre where "?rs = pre @ [systemResolver]"
      by (simp add: createResolverChain_resolvers_def)
    with last sy[of "world_after fn pre w"] show ?thesis by (simp add: outcomes_snoc_last)
  next
    case False
    show ?thesis
    proof (cases "length (Nameservers cfg) > 0")
      case True
      with False obtain pre where "?rs = pre @ [nameserverResolver]"
        by (simp add: createResolverChain_resolvers_def)
      with last ns[of "world_after fn pre w"] show ?thesis by (simp add: outcomes_snoc_last)
    next
      case F2: False
      with False ne show ?thesis by (simp add: createResolverChain_resolvers_def split: if_splits)
    qed
  qed
qed

text \<open>
  C2, where the code departs from it. \<^verbatim>\<open>NewChainResolver\<close> takes no retry count and
  the loop calls each member once. With the retry count of the test's configuration, a
  nameserver that times out on its first call and would answer on the second is called
  once; the chain moves on to the system resolver and returns that member's error.
\<close>
theorem chain_does_not_retry:
  "0 < MaxRetries createValidConfig
   \<and> ChainResolver_Resolve
        (NewChainResolver [flakyResolver ''nameserver'' (''10.0.0.1'', None), systemDown])
        () ''example.com'' []
      = (('''', Some (ErrOther ''no such host'')), [''nameserver'', ''system''])
   \<and> fst (Resolve (flakyResolver ''nameserver'' (''10.0.0.1'', None)) () ''example.com'' [''nameserver''])
      = (''10.0.0.1'', None)"
  by (simp add: fixtures systemDown_def flakyResolver_def createValidConfig_def
      ChainResolver_Resolve_def resolveInSequence_def errors_Is_def)

text \<open>
  C1, where the code departs from it. chain.go declares \<^verbatim>\<open>Resolve\<close> and \<^verbatim>\<open>Reverse\<close> on
  \<^verbatim>\<open>*ChainResolver\<close> with the results \<^verbatim>\<open>(string, error)\<close>, the interface of resolver.go
  asks for \<^verbatim>\<open>([]string, error)\<close>: the method set of the chain does not implement the
  interface.
\<close>
theorem chain_resolver_signature_mismatch:
  "\<not> implements ChainResolver_methods Resolver_interface
   \<and> results_of Resolver_interface ''Resolve'' = Some [TStringSlice, TError]
   \<and> results_of ChainResolver_methods ''Resolve'' = Some [TString, TError]
   \<and> results_of Resolver_interface ''Reverse'' = Some [TStringSlice, TError]
   \<and> results_of ChainResolver_methods ''Reverse'' = Some [TString, TError]"
  by (simp add: implements_def results_of_def ChainResolver_methods_def Resolver_interface_def)


section \<open>Close\<close>

lemma closeLoop_collects:
  "closeLoop rs errs w = (errs @ List.map_filter id (close_outcomes rs w), closed_world rs w)"
proof (induction rs arbitrary: errs w)
  case Nil
  then show ?case by simp
next
  case (Cons r rs)
  obtain e w' where run: "Close r w = (e, w')" by (cases "Close r w")
  show ?case
  proof (cases e)
    case None
    with run Cons.IH[of errs w'] show ?thesis by simp
  next
    case (Some x)
    with run Cons.IH[of "errs @ [x]" w'] show ?thesis by simp
  qed
qed

lemma errors_Join_filtered: "errors_Join (map Some (List.map_filter id es)) = errors_Join es"
proof -
  have "List.map_filter id (map Some xs) = xs" for xs :: "err list"
    by (induction xs) (simp_all add:)
  then show ?thesis by (simp add: errors_Join_def)
qed

text \<open>
  C8. \<^verbatim>\<open>Close\<close> calls \<^verbatim>\<open>Close\<close> on every member, in order, whatever the earlier ones
  returned, and returns the join of the errors that are not nil: nil exactly when no
  member fails. In a chain of three members of which only the second fails to close, the
  world is the one the third member's \<^verbatim>\<open>Close\<close> left and the error is the join of the
  second member's error alone.
\<close>
theorem chain_close_closes_all:
  "ChainResolver_Close c w =
     (errors_Join (close_outcomes (resolvers c) w), closed_world (resolvers c) w)
   \<and> (errors_Join (close_outcomes (resolvers c) w) = None
        \<longleftrightarrow> (\<forall>e \<in> set (close_outcomes (resolvers c) w). e = None))
   \<and> (resolvers c = [r1, r2, r3] \<and> Close r1 w = (None, w1) \<and> Close r2 w1 = (Some e2, w2)
        \<and> Close r3 w2 = (None, w3)
      \<longrightarrow> ChainResolver_Close c w = (Some (ErrJoin [e2]), w3))"
proof -
  have all: "ChainResolver_Close c w =
     (errors_Join (close_outcomes (resolvers c) w), closed_world (resolvers c) w)"
    by (simp add: ChainResolver_Close_def closeLoop_collects errors_Join_filtered)
  have nil: "errors_Join es = None \<longleftrightarrow> (\<forall>e \<in> set es. e = None)" for es
  proof (induction es)
    case Nil
    then show ?case by (simp add: errors_Join_def)
  next
    case (Cons a es)
    then show ?case
      by (cases a) (auto simp: errors_Join_def split: list.splits)
  qed
  have three: "ChainResolver_Close c w = (Some (ErrJoin [e2]), w3)"
    if "resolvers c = [r1, r2, r3]" "Close r1 w = (None, w1)" "Close r2 w1 = (Some e2, w2)"
       "Close r3 w2 = (None, w3)"
    using that by (simp add: ChainResolver_Close_def errors_Join_def)
  from all nil three show ?thesis by blast
qed

text \<open>The theorem at a concrete input.\<close>
theorem chain_close_closes_all_witness:
  "resolvers (NewChainResolver [hostfileMiss, nameserverDown, systemOK])
     = [hostfileMiss, nameserverDown, systemOK]
   \<and> Close hostfileMiss [] = (None, [''hostfile''])
   \<and> Close nameserverDown [''hostfile''] = (Some (ErrOther ''close failed''), [''hostfile'', ''nameserver''])
   \<and> Close systemOK [''hostfile'', ''nameserver''] = (None, [''hostfile'', ''nameserver'', ''system''])
   \<and> ChainResolver_Close (NewChainResolver [hostfileMiss, nameserverDown, systemOK]) []
     = (Some (ErrJoin [ErrOther ''close failed'']), [''hostfile'', ''nameserver'', ''system''])"
  using chain_close_closes_all[of "NewChainResolver [hostfileMiss, nameserverDown, systemOK]" "[]"
      hostfileMiss nameserverDown systemOK "[''hostfile'']" "ErrOther ''close failed''"
      "[''hostfile'', ''nameserver'']" "[''hostfile'', ''nameserver'', ''system'']"]
  by (simp add: fixtures errors_Join_def)

section \<open>The processor\<close>

lemma targetLoop_absent:
  "\<forall>a \<in> set attrs. m a = None \<Longrightarrow> targetLoop attrs m validateFn lastErr = ('''', lastErr)"
  by (induction attrs) simp_all

lemma lookup_without_attribute:
  assumes "\<forall>a \<in> set (Attributes (Resolve_cfg (config dp))). m a = None"
  shows "processResolveLookup ParseHostname dp ctx m w =
     (case Resolve (resolver dp) ctx '''' w of
        ((ip, e), w') \<Rightarrow>
          if e = None
          then (if ip \<noteq> [] then (None, PutStr m (ResolvedAttribute (Resolve_cfg (config dp))) ip, w')
                else (None, m, w'))
          else if errors_Is e ErrNoResolution then (None, m, w') else (e, m, w'))"
  using assms
  by (auto simp: processResolveLookup_def targetStrFromAttributes_def targetLoop_absent
      split: prod.splits)

text \<open>
  C6, where the code departs from it. With \<^verbatim>\<open>["host.name"]\<close> as attribute list and a
  record that has no such attribute, \<^verbatim>\<open>targetStrFromAttributes\<close> returns the empty
  string with a nil error, so \<^verbatim>\<open>processResolveLookup\<close> and \<^verbatim>\<open>processReverseLookup\<close>
  call the resolver on the empty string and hand its error to the caller.
\<close>
theorem lookup_without_attribute_calls_resolver:
  "Attributes (Resolve_cfg (config (testProcessor rejectEmpty))) = [''host.name'']
   \<and> targetStrFromAttributes [''host.name''] Map.empty acceptAny = ('''', None)
   \<and> processResolveLookup acceptAny (testProcessor rejectEmpty) () Map.empty []
     = (Some (ErrOther ''lookup : no such host''), Map.empty, [''Resolve()''])
   \<and> processReverseLookup acceptAny (testProcessor rejectEmpty) () Map.empty []
     = (Some (ErrOther ''lookup : unrecognized address''), Map.empty, [''Reverse()''])"
  by (simp add: testProcessor_def rejectEmpty_def createValidConfig_def
      processResolveLookup_def processReverseLookup_def targetStrFromAttributes_def errors_Is_def)


text \<open>
  With one string as the resolver's result, as chain.go and the processor have it: once
  a target is found, a result that is not empty is written to the destination attribute,
  replacing what was there, with no error; nothing is written and no error returned on
  an empty result and on \<^verbatim>\<open>ErrNoResolution\<close>; every other error goes to the caller and
  nothing is written. No attribute other than the destination changes.
\<close>
lemma lookup_outcomes_single_string:
  "(targetStrFromAttributes (Attributes (Resolve_cfg (config dp))) m ParseHostname = (hostname, None)
      \<and> Resolve (resolver dp) ctx hostname w = ((ip, e), w')
    \<longrightarrow> (e = None \<and> ip \<noteq> [] \<longrightarrow>
            processResolveLookup ParseHostname dp ctx m w
              = (None, m(ResolvedAttribute (Resolve_cfg (config dp)) \<mapsto> ip), w'))
        \<and> (e = None \<and> ip = [] \<longrightarrow>
            processResolveLookup ParseHostname dp ctx m w = (None, m, w'))
        \<and> (errors_Is e ErrNoResolution \<longrightarrow>
            processResolveLookup ParseHostname dp ctx m w = (None, m, w'))
        \<and> (e \<noteq> None \<and> \<not> errors_Is e ErrNoResolution \<longrightarrow>
            processResolveLookup ParseHostname dp ctx m w = (e, m, w'))
        \<and> (\<forall>k. k \<noteq> ResolvedAttribute (Resolve_cfg (config dp)) \<longrightarrow>
            fst (snd (processResolveLookup ParseHostname dp ctx m w)) k = m k))
   \<and> (targetStrFromAttributes (Attributes (Reverse_cfg (config dp))) m ParseIP = (ip', None)
      \<and> Reverse (resolver dp) ctx ip' w = ((hostname', e), w')
    \<longrightarrow> (e = None \<and> hostname' \<noteq> [] \<longrightarrow>
            processReverseLookup ParseIP dp ctx m w
              = (None, m(ResolvedAttribute (Reverse_cfg (config dp)) \<mapsto> hostname'), w'))
        \<and> (e = None \<and> hostname' = [] \<longrightarrow>
            processReverseLookup ParseIP dp ctx m w = (None, m, w'))
        \<and> (errors_Is e ErrNoResolution \<longrightarrow>
            processReverseLookup ParseIP dp ctx m w = (None, m, w'))
        \<and> (e \<noteq> None \<and> \<not> errors_Is e ErrNoResolution \<longrightarrow>
            processReverseLookup ParseIP dp ctx m w = (e, m, w'))
        \<and> (\<forall>k. k \<noteq> ResolvedAttribute (Reverse_cfg (config dp)) \<longrightarrow>
            fst (snd (processReverseLookup ParseIP dp ctx m w)) k = m k))"
  by (auto simp: processResolveLookup_def processReverseLookup_def PutStr_def errors_Is_def)

section \<open>Validation\<close>

lemma join_lines_contains: "m \<in> set ms \<Longrightarrow> sublist m (join_lines ms)"
proof (induction ms rule: join_lines.induct)
  case 1
  then show ?case by simp
next
  case (2 m')
  then show ?case by simp
next
  case (3 m' n ms)
  show ?case
  proof (cases "m = m'")
    case True
    then show ?thesis by simp
  next
    case False
    with 3 have "sublist m (join_lines (n # ms))" by simp
    then have "sublist m ((m' @ [CHR 0x0A]) @ join_lines (n # ms))"
      by (metis sublist_append)
    then show ?thesis by simp
  qed
qed

lemma map_filter_id_set: "set (List.map_filter id es) = {x. Some x \<in> set es}"
  by (induction es) (auto split: option.splits)

lemma errors_Join_contains:
  assumes "Some e \<in> set errs"
  shows "\<exists>j. errors_Join errs = Some j \<and> strings_Contains (err_Error j) (err_Error e)"
proof -
  from assms have mem: "e \<in> set (List.map_filter id errs)" by (simp add: map_filter_id_set)
  then obtain x xs where xs: "List.map_filter id errs = x # xs"
    by (cases "List.map_filter id errs") auto
  from mem have "err_Error e \<in> set (map err_Error (List.map_filter id errs))" by simp
  then have "sublist (err_Error e) (join_lines (map err_Error (List.map_filter id errs)))"
    by (rule join_lines_contains)
  with xs show ?thesis by (simp add: errors_Join_def strings_Contains_def)
qed

lemma errors_Join_all_None: "(\<forall>e \<in> set errs. e = None) \<Longrightarrow> errors_Join errs = None"
  by (induction errs) (auto simp: errors_Join_def)

lemma validateLookupConfig_ok:
  "lookup_rules lc \<Longrightarrow> \<forall>e \<in> set (validateLookupConfig lc). e = None"
  by (auto simp: lookup_rules_def validateLookupConfig_def check_def split: if_splits)

text \<open>
  C9. Validation of a configuration with both directions disabled fails with an error
  whose text contains "either forward (resolve) or reverse DNS lookup must be enabled";
  with a timeout of zero or below it fails with an error whose text contains "timeout
  must be positive"; a configuration that meets every field rule passes.
\<close>
theorem validate_rejects_and_accepts:
  "(\<not> Enabled (Resolve_cfg cfg) \<and> \<not> Enabled (Reverse_cfg cfg)
      \<longrightarrow> (\<exists>e. Validate cfg = Some e
             \<and> strings_Contains (err_Error e)
                  ''either forward (resolve) or reverse DNS lookup must be enabled''))
   \<and> (Timeout cfg \<le> 0
      \<longrightarrow> (\<exists>e. Validate cfg = Some e
             \<and> strings_Contains (err_Error e) ''timeout must be positive''))
   \<and> (field_rules cfg \<longrightarrow> Validate cfg = None)"
proof (intro conjI impI)
  assume "\<not> Enabled (Resolve_cfg cfg) \<and> \<not> Enabled (Reverse_cfg cfg)"
  then show "\<exists>e. Validate cfg = Some e
      \<and> strings_Contains (err_Error e)
           ''either forward (resolve) or reverse DNS lookup must be enabled''"
    using errors_Join_contains[of
        "ErrOther ''either forward (resolve) or reverse DNS lookup must be enabled''"]
    by (simp add: Validate_def check_def)
next
  assume "Timeout cfg \<le> 0"
  then show "\<exists>e. Validate cfg = Some e
      \<and> strings_Contains (err_Error e) ''timeout must be positive''"
    using errors_Join_contains[of "ErrOther ''timeout must be positive''"]
    by (simp add: Validate_def check_def)
next
  assume ok: "field_rules cfg"
  show "Validate cfg = None"
    unfolding Validate_def
  proof (rule errors_Join_all_None)
    from ok validateLookupConfig_ok[of "Resolve_cfg cfg"] validateLookupConfig_ok[of "Reverse_cfg cfg"]
    show "\<forall>e \<in> set ([check (Enabled (Resolve_cfg cfg) \<or> Enabled (Reverse_cfg cfg))
           ''either forward (resolve) or reverse DNS lookup must be enabled'']
        @ map (wrap ''resolve configuration: '') (validateLookupConfig (Resolve_cfg cfg))
        @ map (wrap ''reverse configuration: '') (validateLookupConfig (Reverse_cfg cfg))
        @ [check (0 < Timeout cfg) ''timeout must be positive'',
           check (0 \<le> MaxRetries cfg) ''max_retries must be non-negative'',
           check (0 \<le> HitCacheSize cfg) ''hit_cache_size must be non-negative'',
           check (0 \<le> MissCacheSize cfg) ''miss_cache_size must be non-negative'',
           check (0 < HitCacheTTL cfg) ''hit_cache_ttl must be positive'',
           check (0 < MissCacheTTL cfg) ''miss_cache_ttl must be positive'',
           check (EnableSystemResolver cfg \<or> Hostfiles cfg \<noteq> [] \<or> Nameservers cfg \<noteq> [])
             ''at least one of enable_system_resolver, hostfiles, or nameservers must be specified'']). e = None"
      by (auto simp: field_rules_def check_def wrap_def)
  qed
qed

text \<open>The theorem at a concrete input.\<close>
theorem validate_rejects_and_accepts_witness:
  "\<not> Enabled (Resolve_cfg (createValidConfig\<lparr>Resolve_cfg := Resolve_cfg createValidConfig\<lparr>Enabled := False\<rparr>\<rparr>))
   \<and> \<not> Enabled (Reverse_cfg (createValidConfig\<lparr>Resolve_cfg := Resolve_cfg createValidConfig\<lparr>Enabled := False\<rparr>\<rparr>))
   \<and> (\<exists>e. Validate (createValidConfig\<lparr>Resolve_cfg := Resolve_cfg createValidConfig\<lparr>Enabled := False\<rparr>\<rparr>) = Some e
          \<and> strings_Contains (err_Error e)
               ''either forward (resolve) or reverse DNS lookup must be enabled'')
   \<and> Timeout (createValidConfig\<lparr>Timeout := 0\<rparr>) \<le> 0
   \<and> (\<exists>e. Validate (createValidConfig\<lparr>Timeout := 0\<rparr>) = Some e
          \<and> strings_Contains (err_Error e) ''timeout must be positive'')
   \<and> field_rules createValidConfig
   \<and> Validate createValidConfig = None"
proof -
  have a: "\<not> Enabled (Resolve_cfg (createValidConfig\<lparr>Resolve_cfg := Resolve_cfg createValidConfig\<lparr>Enabled := False\<rparr>\<rparr>))
     \<and> \<not> Enabled (Reverse_cfg (createValidConfig\<lparr>Resolve_cfg := Resolve_cfg createValidConfig\<lparr>Enabled := False\<rparr>\<rparr>))"
    by (simp add: createValidConfig_def)
  have b: "Timeout (createValidConfig\<lparr>Timeout := 0\<rparr>) \<le> 0" by simp
  have c: "field_rules createValidConfig"
    by (simp add: field_rules_def lookup_rules_def createValidConfig_def resource_def)
  from a b c
    validate_rejects_and_accepts[of "createValidConfig\<lparr>Resolve_cfg := Resolve_cfg createValidConfig\<lparr>Enabled := False\<rparr>\<rparr>"]
    validate_rejects_and_accepts[of "createValidConfig\<lparr>Timeout := 0\<rparr>"]
    validate_rejects_and_accepts[of createValidConfig]
  show ?thesis by blast
qed

lemma validate_zero_timeout_value:
  "Validate (createValidConfig\<lparr>Timeout := 0\<rparr>) = Some (ErrJoin [ErrOther ''timeout must be positive''])"
  by (simp add: Validate_def createValidConfig_def validateLookupConfig_def check_def wrap_def
      errors_Join_def resource_def)


end
